theory Spec2Isabelle
  imports Complex_Main
begin

section \<open>AI Vision Assistant: capture, analysis and speech pipeline\<close>

text \<open>
  A shallow embedding of \<^verbatim>\<open>ai_vision_assistant.py\<close> (class \<^verbatim>\<open>VisionAssistant\<close>).
  The object's fields form a record that every method takes and returns. Everything the
  program obtains from outside (camera frames, the clock, HTTP responses, the recogniser,
  the audio mixer, the text typed into a Tk variable) is an explicit argument of the
  method that reads it, and everything it does to the outside (dialogs, log lines, API
  requests, audio output, threads) is appended to the field \<open>effects\<close>.
\<close>

subsection \<open>Python numbers\<close>

text \<open>
  Python floats are IEEE 754 binary64 values. A finite float is the rational number it
  denotes, and an arithmetic operation is the exact operation followed by \<open>fl\<close>:
  rounding to the nearest number with a 53-bit significand, ties to the even
  significand. Overflow and subnormal numbers are outside the model; no quantity
  below comes near either range.
\<close>

fun ilog2 :: "nat \<Rightarrow> nat" where
  "ilog2 n = (if n < 2 then 0 else Suc (ilog2 (n div 2)))"

declare ilog2.simps [simp del]

definition clog2 :: "nat \<Rightarrow> nat" where
  "clog2 m = (if m \<le> 1 then 0 else Suc (ilog2 (m - 1)))"

definition expo :: "rat \<Rightarrow> int" where
  \<comment> \<open>for \<open>0 < x\<close>: the \<open>e\<close> with \<open>2^e \<le> x < 2^(e+1)\<close>\<close>
  "expo x = (if 1 \<le> x then int (ilog2 (nat \<lfloor>x\<rfloor>)) else - int (clog2 (nat \<lceil>1 / x\<rceil>)))"

definition pow2 :: "int \<Rightarrow> rat" where
  "pow2 k = (if 0 \<le> k then 2 ^ nat k else 1 / 2 ^ nat (- k))"

definition round_half_even :: "rat \<Rightarrow> int" where
  "round_half_even y =
     (let f = \<lfloor>y\<rfloor>; r = y - of_int f
      in if r < 1 / 2 then f else if 1 / 2 < r then f + 1 else if even f then f else f + 1)"

definition fl :: "rat \<Rightarrow> rat" where
  "fl x = (if x = 0 then 0 else
     let q = pow2 (expo \<bar>x\<bar> - 52)
     in sgn x * (of_int (round_half_even (\<bar>x\<bar> / q)) * q))"

definition fmul :: "rat \<Rightarrow> rat \<Rightarrow> rat" where
  "fmul a b = fl (a * b)"

definition fsub :: "rat \<Rightarrow> rat \<Rightarrow> rat" where
  "fsub a b = fl (a - b)"

definition int_truediv :: "int \<Rightarrow> int \<Rightarrow> rat" where
  \<comment> \<open>\<^verbatim>\<open>a / b\<close> on Python ints (\<open>b \<noteq> 0\<close>): the correctly rounded quotient\<close>
  "int_truediv a b = fl (of_int a / of_int b)"

definition float_of_int :: "int \<Rightarrow> rat" where
  \<comment> \<open>the conversion of an int operand in mixed int/float arithmetic\<close>
  "float_of_int n = fl (of_int n)"

definition py_int :: "rat \<Rightarrow> int" where
  \<comment> \<open>\<^verbatim>\<open>int(x)\<close> on a float: truncation towards zero\<close>
  "py_int x = (if 0 \<le> x then \<lfloor>x\<rfloor> else \<lceil>x\<rceil>)"

text \<open>\<^verbatim>\<open>float(s)\<close> can also return an infinity or a NaN; every comparison with NaN is false.\<close>

datatype pyfloat = Finite rat | PosInf | NegInf | NaN

fun in_closed_range :: "rat \<Rightarrow> pyfloat \<Rightarrow> rat \<Rightarrow> bool" where
  \<comment> \<open>the chained comparison \<^verbatim>\<open>lo <= x <= hi\<close>\<close>
  "in_closed_range lo (Finite x) hi = (lo \<le> x \<and> x \<le> hi)"
| "in_closed_range lo _ hi = False"

text \<open>\<^verbatim>\<open>str(n)\<close> on an int: the decimal digits, with a minus sign when negative.\<close>

fun str_nat :: "nat \<Rightarrow> string" where
  "str_nat n =
     (if n < 10 then [''0123456789'' ! n] else str_nat (n div 10) @ [''0123456789'' ! (n mod 10)])"

declare str_nat.simps [simp del]

definition str_int :: "int \<Rightarrow> string" where
  "str_int i = (if i < 0 then CHR ''-'' # str_nat (nat (- i)) else str_nat (nat i))"

text \<open>
  \<^verbatim>\<open>str.lower()\<close> on the ASCII letters; every other byte of the UTF-8 text is kept.
\<close>

definition is_upper :: "char \<Rightarrow> bool" where
  "is_upper c = (65 \<le> (of_char c :: nat) \<and> (of_char c :: nat) \<le> 90)"

definition lower_char :: "char \<Rightarrow> char" where
  "lower_char c = (if is_upper c then char_of ((of_char c :: nat) + 32) else c)"

definition lower :: "string \<Rightarrow> string" where
  "lower s = map lower_char s"

subsection \<open>Frames and the bounded queue\<close>

text \<open>
  A frame is its shape (\<^verbatim>\<open>frame.shape[:2]\<close> is height, width) and a tag standing for
  the pixel data, which no branch of the program inspects.
\<close>

record frame =
  height :: nat
  width :: nat
  pixels :: nat

text \<open>
  \<^verbatim>\<open>queue.Queue(maxsize)\<close>: \<open>full\<close> is \<^verbatim>\<open>0 < maxsize <= qsize\<close>. \<^verbatim>\<open>put\<close> on a full
  queue and \<^verbatim>\<open>get\<close> on an empty one block the calling thread; here they return \<open>None\<close>.
\<close>

record 'a queue =
  maxsize :: nat
  items :: "'a list"

definition new_queue :: "nat \<Rightarrow> 'a queue" where
  "new_queue m = \<lparr>maxsize = m, items = []\<rparr>"

definition qsize :: "'a queue \<Rightarrow> nat" where
  "qsize q = length (items q)"

definition full :: "'a queue \<Rightarrow> bool" where
  "full q = (0 < maxsize q \<and> maxsize q \<le> qsize q)"

definition empty_q :: "'a queue \<Rightarrow> bool" where
  "empty_q q = (qsize q = 0)"

definition put :: "'a queue \<Rightarrow> 'a \<Rightarrow> 'a queue option" where
  "put q x = (if full q then None else Some (q\<lparr>items := items q @ [x]\<rparr>))"

definition get :: "'a queue \<Rightarrow> ('a \<times> 'a queue) option" where
  "get q = (case items q of [] \<Rightarrow> None | x # xs \<Rightarrow> Some (x, q\<lparr>items := xs\<rparr>))"

subsection \<open>The assistant object\<close>

datatype tier = GoogleCloud | Gtts | Pyttsx3

datatype effect =
    ShowError string string               \<comment> \<open>\<^verbatim>\<open>messagebox.showerror(title, message)\<close>\<close>
  | ShowWarning string string             \<comment> \<open>\<^verbatim>\<open>messagebox.showwarning(title, message)\<close>\<close>
  | LogText string string                 \<comment> \<open>\<^verbatim>\<open>log_text(text, prefix)\<close>, direct or through \<^verbatim>\<open>root.after\<close>\<close>
  | Display frame                         \<comment> \<open>\<^verbatim>\<open>update_video_display\<close> scheduled for a frame\<close>
  | StartButton string                    \<comment> \<open>the start button relabelled\<close>
  | VoiceButton bool                      \<comment> \<open>\<^verbatim>\<open>update_voice_button\<close>: the listening state it shows\<close>
  | StartThreads                          \<comment> \<open>the three loop threads started\<close>
  | StopAudio                             \<comment> \<open>\<^verbatim>\<open>pygame.mixer.music.stop()\<close>\<close>
  | ListenCall                            \<comment> \<open>\<^verbatim>\<open>listen_for_speech()\<close> entered\<close>
  | LogError string                       \<comment> \<open>\<^verbatim>\<open>logger.error\<close>\<close>
  | AnalysisCall string "string option"   \<comment> \<open>\<^verbatim>\<open>analyze_image_with_ai(image_data, question)\<close> entered\<close>
  | GenerateContent string "string option" string
      \<comment> \<open>the request to the model: response language, question, image\<close>
  | SpeakThread string                    \<comment> \<open>a daemon thread started on \<^verbatim>\<open>speak_text(text)\<close>\<close>
  | CloudTtsRequest string string rat string
      \<comment> \<open>the synthesis request: language code, voice name, speaking rate, text\<close>
  | GttsRequest string string bool string \<comment> \<open>\<^verbatim>\<open>gTTS(text, lang, tld, slow)\<close>: lang, tld, slow, text\<close>
  | TierEntered tier                      \<comment> \<open>one of the three synthesis functions entered\<close>
  | AudioOut tier string                  \<comment> \<open>playback of the text started by that tier\<close>

record assistant =
  is_running :: bool
  is_listening :: bool
  auto_describe :: bool
  last_description_time :: rat
  description_interval :: int
  speaking_speed :: rat
  voice_language :: string
  voice_accent :: string
  use_google_tts_api :: bool
  response_language :: string
  ai_model :: bool                 \<comment> \<open>\<open>False\<close> is \<^verbatim>\<open>self.ai_model = None\<close>\<close>
  camera :: bool                   \<comment> \<open>\<open>False\<close> is \<^verbatim>\<open>self.camera = None\<close>\<close>
  google_tts_api_key :: string
  tts_rate :: int                  \<comment> \<open>the \<^verbatim>\<open>rate\<close> property of the pyttsx3 engine\<close>
  image_queue :: "frame queue"
  current_frame :: "frame option"
  auto_var :: bool
  interval_var :: string
  speed_var :: string
  status :: string                 \<comment> \<open>the message of the latest \<^verbatim>\<open>update_status\<close> (its clock prefix is left out)\<close>
  api_call_count :: nat
  effects :: "effect list"

definition emit :: "effect \<Rightarrow> assistant \<Rightarrow> assistant" where
  "emit e a = a\<lparr>effects := effects a @ [e]\<rparr>"

definition update_status :: "string \<Rightarrow> assistant \<Rightarrow> assistant" where
  "update_status m a = a\<lparr>status := m\<rparr>"

text \<open>
  The object after \<^verbatim>\<open>__init__\<close>, given whether \<^verbatim>\<open>setup_ai\<close> and \<^verbatim>\<open>setup_camera\<close>
  succeeded. \<^verbatim>\<open>setup_audio\<close> sets the engine rate to 200.
\<close>

definition init :: "bool \<Rightarrow> bool \<Rightarrow> string \<Rightarrow> assistant" where
  "init ai cam key =
     \<lparr>is_running = False, is_listening = False, auto_describe = True,
      last_description_time = 0, description_interval = 10,
      speaking_speed = fl (12 / 10), voice_language = ''en'', voice_accent = ''us'',
      use_google_tts_api = True, response_language = ''en'',
      ai_model = ai, camera = cam, google_tts_api_key = key, tts_rate = 200,
      image_queue = new_queue 2, current_frame = None,
      auto_var = True, interval_var = str_int 10, speed_var = ''1.2'',
      status = ''Ready'', api_call_count = 0, effects = []\<rparr>"

subsection \<open>Image preparation\<close>

text \<open>
  \<^verbatim>\<open>cv2.resize(frame, (new_width, new_height))\<close> raises on an empty source or an empty
  target size; otherwise the result has shape \<open>(new_height, new_width)\<close>.
\<close>

definition cv2_resize :: "frame \<Rightarrow> int \<Rightarrow> int \<Rightarrow> frame option" where
  "cv2_resize f new_width new_height =
     (if new_width \<le> 0 \<or> new_height \<le> 0 \<or> height f = 0 \<or> width f = 0 then None
      else Some (f\<lparr>height := nat new_height, width := nat new_width\<rparr>))"

definition resized :: "frame \<Rightarrow> frame option" where
  \<comment> \<open>the local \<^verbatim>\<open>frame\<close> of \<^verbatim>\<open>prepare_image_for_ai\<close> after the resizing step\<close>
  "resized f =
     (if width f > 800 then
        let scale = int_truediv 800 (int (width f));
            new_width = py_int (fmul (float_of_int (int (width f))) scale);
            new_height = py_int (fmul (float_of_int (int (height f))) scale)
        in cv2_resize f new_width new_height
      else Some f)"

text \<open>
  The colour conversion, JPEG encoding and base64 encoding are the argument \<open>enc\<close>
  (\<open>None\<close> when one of them raises). Any exception makes the method return \<^verbatim>\<open>None\<close>.
\<close>

definition prepare_image_for_ai :: "(frame \<Rightarrow> string option) \<Rightarrow> frame \<Rightarrow> string option" where
  "prepare_image_for_ai enc f = (case resized f of None \<Rightarrow> None | Some g \<Rightarrow> enc g)"

subsection \<open>Image analysis\<close>

definition error_msg_hi :: string where
  "error_msg_hi = [
     CHR 0xE0, CHR 0xA4, CHR 0x9B, CHR 0xE0, CHR 0xA4, CHR 0xB5, CHR 0xE0, CHR 0xA4,
     CHR 0xBF, CHR 0x20, CHR 0xE0, CHR 0xA4, CHR 0xB5, CHR 0xE0, CHR 0xA4, CHR 0xBF,
     CHR 0xE0, CHR 0xA4, CHR 0xB6, CHR 0xE0, CHR 0xA5, CHR 0x8D, CHR 0xE0, CHR 0xA4,
     CHR 0xB2, CHR 0xE0, CHR 0xA5, CHR 0x87, CHR 0xE0, CHR 0xA4, CHR 0xB7, CHR 0xE0,
     CHR 0xA4, CHR 0xA3, CHR 0x20, CHR 0xE0, CHR 0xA4, CHR 0xAE, CHR 0xE0, CHR 0xA5,
     CHR 0x87, CHR 0xE0, CHR 0xA4, CHR 0x82, CHR 0x20, CHR 0xE0, CHR 0xA4, CHR 0xA4,
     CHR 0xE0, CHR 0xA5, CHR 0x8D, CHR 0xE0, CHR 0xA4, CHR 0xB0, CHR 0xE0, CHR 0xA5,
     CHR 0x81, CHR 0xE0, CHR 0xA4, CHR 0x9F, CHR 0xE0, CHR 0xA4, CHR 0xBF]"

definition error_msg :: "string \<Rightarrow> string" where
  "error_msg lang = (if lang = ''hi'' then error_msg_hi else ''Error analyzing image'')"

text \<open>
  The outcome of \<^verbatim>\<open>generate_content\<close> is an argument: the response text, the text
  of the exception raised by the request, or the text of the exception raised on reading
  \<^verbatim>\<open>response.text\<close> (after the call has been counted). The prompt is determined by the
  response language and the question, which is what the \<open>GenerateContent\<close> effect records.
\<close>

datatype gen_outcome = Response string | GenRaises string | TextRaises string

definition analyze_image_with_ai ::
  "gen_outcome \<Rightarrow> string \<Rightarrow> string option \<Rightarrow> assistant \<Rightarrow> string \<times> assistant" where
  "analyze_image_with_ai gen image_data question a0 =
     (let a = emit (AnalysisCall image_data question) a0 in
      if \<not> ai_model a then (''AI model not available'', a)
      else
        let a1 = emit (GenerateContent (response_language a) question image_data) a in
        case gen of
          Response text \<Rightarrow> (text, a1\<lparr>api_call_count := api_call_count a1 + 1\<rparr>)
        | GenRaises e \<Rightarrow>
            (error_msg (response_language a1) @ '': '' @ e,
             emit (LogError (''AI analysis error: '' @ e)) a1)
        | TextRaises e \<Rightarrow>
            (error_msg (response_language a1) @ '': '' @ e,
             emit (LogError (''AI analysis error: '' @ e))
               (a1\<lparr>api_call_count := api_call_count a1 + 1\<rparr>)))"

subsection \<open>The interval and speed setters\<close>

text \<open>
  \<^verbatim>\<open>int(s)\<close> and \<^verbatim>\<open>float(s)\<close> on a string are the arguments \<open>parse_int\<close> and
  \<open>parse_float\<close> (\<open>None\<close> is \<^verbatim>\<open>ValueError\<close>), and \<^verbatim>\<open>str(x)\<close> on a float is
  \<open>str_float\<close>: the properties below hold for every such function.
\<close>

definition update_interval :: "(string \<Rightarrow> int option) \<Rightarrow> assistant \<Rightarrow> assistant" where
  "update_interval parse_int a =
     (case parse_int (interval_var a) of
        Some new_interval \<Rightarrow>
          if 5 \<le> new_interval \<and> new_interval \<le> 60 then
            update_status (''Analysis interval set to '' @ str_int new_interval @ '' seconds'')
              (a\<lparr>description_interval := new_interval\<rparr>)
          else
            update_status ''Interval must be between 5-60 seconds''
              (a\<lparr>interval_var := str_int (description_interval a)\<rparr>)
      | None \<Rightarrow>
          update_status ''Invalid interval value''
            (a\<lparr>interval_var := str_int (description_interval a)\<rparr>))"

definition update_speaking_speed ::
  "(string \<Rightarrow> pyfloat option) \<Rightarrow> (pyfloat \<Rightarrow> string) \<Rightarrow> assistant \<Rightarrow> assistant" where
  "update_speaking_speed parse_float str_float a =
     (case parse_float (speed_var a) of
        Some new_speed \<Rightarrow>
          (case new_speed of
             Finite s \<Rightarrow>
               if in_closed_range (1 / 2) new_speed 2 then
                 update_status (''Speaking speed set to '' @ str_float new_speed @ ''x'')
                   (a\<lparr>speaking_speed := s, tts_rate := py_int (fmul (float_of_int 150) s)\<rparr>)
               else
                 update_status ''Speed must be between 0.5x-2.0x''
                   (a\<lparr>speed_var := str_float (Finite (speaking_speed a))\<rparr>)
           | _ \<Rightarrow>
               update_status ''Speed must be between 0.5x-2.0x''
                 (a\<lparr>speed_var := str_float (Finite (speaking_speed a))\<rparr>))
      | None \<Rightarrow>
          update_status ''Invalid speed value''
            (a\<lparr>speed_var := str_float (Finite (speaking_speed a))\<rparr>))"

text \<open>
  For the worked examples: \<^verbatim>\<open>int(s)\<close> on the plain decimal strings (digits, with an
  optional minus sign). Python accepts more (a plus sign, surrounding blanks,
  underscores between digits); on those this function gives \<open>None\<close>.
\<close>

definition digit_val :: "char \<Rightarrow> nat option" where
  "digit_val c = (let n = (of_char c :: nat) in if 48 \<le> n \<and> n \<le> 57 then Some (n - 48) else None)"

fun decimal_acc :: "nat \<Rightarrow> string \<Rightarrow> nat option" where
  "decimal_acc acc [] = Some acc"
| "decimal_acc acc (c # cs) =
     (case digit_val c of None \<Rightarrow> None | Some d \<Rightarrow> decimal_acc (10 * acc + d) cs)"

fun int_of_decimal :: "string \<Rightarrow> int option" where
  "int_of_decimal [] = None"
| "int_of_decimal (c # cs) =
     (if c = CHR ''-'' then
        (case cs of [] \<Rightarrow> None | _ \<Rightarrow> map_option (\<lambda>n. - int n) (decimal_acc 0 cs))
      else map_option int (decimal_acc 0 (c # cs)))"

subsection \<open>Speech synthesis\<close>

text \<open>
  Both cloud tiers write the audio to a temporary file and then run the same statements:
  \<^verbatim>\<open>music.load\<close>, \<^verbatim>\<open>music.play\<close>, the loop on \<^verbatim>\<open>music.get_busy\<close>, \<^verbatim>\<open>os.unlink\<close>.
  Each of them can raise; the argument says which one does, if any. Audio is heard as
  soon as \<^verbatim>\<open>music.play\<close> has returned. The log lines of the three tiers are kept
  without the text of the exception.
\<close>

datatype play_fault = LoadFails | PlayFails | WaitFails | UnlinkFails

fun heard :: "play_fault option \<Rightarrow> bool" where
  "heard None = True"
| "heard (Some LoadFails) = False"
| "heard (Some PlayFails) = False"
| "heard (Some WaitFails) = True"
| "heard (Some UnlinkFails) = True"

definition mixer_playback :: "tier \<Rightarrow> string \<Rightarrow> play_fault option \<Rightarrow> assistant \<Rightarrow> bool \<times> assistant" where
  \<comment> \<open>the first component says whether the statements completed without raising\<close>
  "mixer_playback t text fault a =
     (fault = None, if heard fault then emit (AudioOut t text) a else a)"

datatype json_outcome = JsonRaises | Json "string option"   \<comment> \<open>the \<^verbatim>\<open>audioContent\<close> entry\<close>

datatype post_outcome = PostRaises | PostResponse nat json_outcome

record speak_env =
  post :: post_outcome                     \<comment> \<open>\<^verbatim>\<open>requests.post\<close>: raises, or status code and body\<close>
  cloud_file :: bool                       \<comment> \<open>base64 decoding and writing the temporary file succeed\<close>
  cloud_playback :: "play_fault option"
  gtts_synth :: bool                       \<comment> \<open>\<^verbatim>\<open>gTTS(...)\<close> and \<^verbatim>\<open>tts.save\<close> succeed\<close>
  gtts_playback :: "play_fault option"
  pyttsx3_ok :: bool                       \<comment> \<open>\<^verbatim>\<open>say\<close> and \<^verbatim>\<open>runAndWait\<close> succeed\<close>

definition lookup_default :: "('k \<times> 'v) list \<Rightarrow> 'k \<Rightarrow> 'v \<Rightarrow> 'v" where
  \<comment> \<open>\<^verbatim>\<open>dict.get(key, default)\<close>\<close>
  "lookup_default d k dflt = (case map_of d k of None \<Rightarrow> dflt | Some v \<Rightarrow> v)"

definition cloud_voice :: "string \<Rightarrow> string \<Rightarrow> string \<times> string" where
  \<comment> \<open>language code and voice name\<close>
  "cloud_voice lang accent =
     (if lang = ''hi'' then
        (''hi-IN'',
         lookup_default [(''us'', ''hi-IN-Neural2-A''), (''uk'', ''hi-IN-Neural2-B''),
                         (''au'', ''hi-IN-Neural2-C''), (''in'', ''hi-IN-Neural2-D'')]
           accent ''hi-IN-Neural2-A'')
      else
        (''en-US'',
         lookup_default [(''us'', ''en-US-Neural2-F''), (''uk'', ''en-GB-Neural2-F''),
                         (''au'', ''en-AU-Neural2-F''), (''in'', ''en-IN-Neural2-F'')]
           accent ''en-US-Neural2-F''))"

definition speak_with_pyttsx3 :: "speak_env \<Rightarrow> string \<Rightarrow> assistant \<Rightarrow> assistant" where
  "speak_with_pyttsx3 env text a0 =
     (let a = emit (TierEntered Pyttsx3) a0 in
      if pyttsx3_ok env then emit (AudioOut Pyttsx3 text) a
      else update_status ''Speech synthesis failed'' (emit (LogError ''pyttsx3 TTS error'') a))"

definition speak_with_google_cloud_tts :: "speak_env \<Rightarrow> string \<Rightarrow> assistant \<Rightarrow> bool \<times> assistant" where
  "speak_with_google_cloud_tts env text a0 =
     (let a = emit (TierEntered GoogleCloud) a0;
          (language_code, voice_name) = cloud_voice (voice_language a) (voice_accent a);
          a1 = emit (CloudTtsRequest language_code voice_name (speaking_speed a) text) a;
          failed = (\<lambda>b. (False, emit (LogError ''Google Cloud TTS error'') b))
      in case post env of
           PostRaises \<Rightarrow> failed a1
         | PostResponse status_code body \<Rightarrow>
             if status_code = 200 then
               (case body of
                  JsonRaises \<Rightarrow> failed a1
                | Json audio_data \<Rightarrow>
                    if audio_data \<noteq> None \<and> audio_data \<noteq> Some [] then
                      if cloud_file env then
                        (case mixer_playback GoogleCloud text (cloud_playback env) a1 of
                           (True, a2) \<Rightarrow> (True, a2)
                         | (False, a2) \<Rightarrow> failed a2)
                      else failed a1
                    else (False, a1))
             else (False, a1))"

definition gtts_tld :: "string \<Rightarrow> string \<Rightarrow> string \<times> string" where
  "gtts_tld lang accent =
     (if lang = ''hi'' then (''hi'', ''co.in'')
      else (''en'', lookup_default [(''us'', ''com''), (''uk'', ''co.uk''),
                                   (''au'', ''com.au''), (''in'', ''co.in'')] accent ''com''))"

definition speak_with_gtts :: "speak_env \<Rightarrow> string \<Rightarrow> assistant \<Rightarrow> assistant" where
  "speak_with_gtts env text a0 =
     (let a = emit (TierEntered Gtts) a0;
          (lang, tld) = gtts_tld (voice_language a) (voice_accent a);
          a1 = emit (GttsRequest lang tld (speaking_speed a < 1) text) a;
          failed = (\<lambda>b. speak_with_pyttsx3 env text (emit (LogError ''gTTS error'') b))
      in if gtts_synth env then
           (case mixer_playback Gtts text (gtts_playback env) a1 of
              (True, a2) \<Rightarrow> a2
            | (False, a2) \<Rightarrow> failed a2)
         else failed a1)"

text \<open>
  The three functions above catch every exception themselves, so the handler of
  \<^verbatim>\<open>speak_text\<close> has no branch here.
\<close>

definition speak_text :: "speak_env \<Rightarrow> string \<Rightarrow> assistant \<Rightarrow> assistant" where
  "speak_text env text a =
     (if use_google_tts_api a \<and> google_tts_api_key a \<noteq> [] then
        (case speak_with_google_cloud_tts env text a of
           (True, a1) \<Rightarrow> a1
         | (False, a1) \<Rightarrow> speak_with_gtts env text a1)
      else speak_with_gtts env text a)"

definition audio_outputs :: "assistant \<Rightarrow> tier list" where
  \<comment> \<open>the tiers that produced audio, in order\<close>
  "audio_outputs a = concat (map (\<lambda>e. case e of AudioOut t _ \<Rightarrow> [t] | _ \<Rightarrow> []) (effects a))"

definition tiers_entered :: "assistant \<Rightarrow> tier list" where
  "tiers_entered a = concat (map (\<lambda>e. case e of TierEntered t \<Rightarrow> [t] | _ \<Rightarrow> []) (effects a))"

subsection \<open>Speech recognition\<close>

text \<open>
  What the microphone and the recognition backend do is the argument: the three
  exceptions the method handles, a recognised text, or any other exception (raised on
  opening the microphone), which the method lets through (\<open>Inl\<close>).
\<close>

datatype listen_outcome =
    WaitTimeout | UnknownValue | RequestError string | Recognized string | OtherError string

fun listen_for_speech :: "listen_outcome \<Rightarrow> assistant \<Rightarrow> (string + string option) \<times> assistant" where
  "listen_for_speech WaitTimeout a =
     (Inr None, update_status ''No speech detected'' (update_status ''Listening for speech...'' a))"
| "listen_for_speech UnknownValue a =
     (Inr None, update_status ''Could not understand speech''
        (update_status ''Processing speech...'' (update_status ''Listening for speech...'' a)))"
| "listen_for_speech (RequestError e) a =
     (Inr None, update_status ''Speech recognition error''
        (emit (LogError (''Speech recognition error: '' @ e))
           (update_status ''Processing speech...'' (update_status ''Listening for speech...'' a))))"
| "listen_for_speech (Recognized text) a =
     (Inr (Some (lower text)),
      update_status ''Processing speech...'' (update_status ''Listening for speech...'' a))"
| "listen_for_speech (OtherError e) a = (Inl e, a)"

subsection \<open>The three loops\<close>

text \<open>
  One definition per loop body: one pass through the \<^verbatim>\<open>try\<close> block of the
  \<^verbatim>\<open>while self.is_running\<close> loop. The result is \<open>None\<close> when the thread blocks for
  ever on the queue.
\<close>

definition capture_frame :: "frame option \<Rightarrow> assistant \<Rightarrow> frame option" where
  \<comment> \<open>the first argument is what \<^verbatim>\<open>camera.read()\<close> delivers on an open camera\<close>
  "capture_frame r a = (if \<not> camera a then None else r)"

definition camera_body :: "frame option \<Rightarrow> assistant \<Rightarrow> assistant option" where
  "camera_body r a =
     (case capture_frame r a of
        None \<Rightarrow> Some a
      | Some f \<Rightarrow>
          let a1 = emit (Display f) (a\<lparr>current_frame := Some f\<rparr>)
          in if \<not> full (image_queue a1) then
               (case put (image_queue a1) f of
                  None \<Rightarrow> None
                | Some q \<Rightarrow> Some (a1\<lparr>image_queue := q\<rparr>))
             else Some a1)"

text \<open>
  An iteration of the auto-describe loop reads the clock twice: \<open>now\<close> in the guard and
  \<open>finished\<close> when it stores the timestamp.
\<close>

record tick_env =
  now :: rat
  finished :: rat
  tick_enc :: "frame \<Rightarrow> string option"
  tick_gen :: gen_outcome

definition truthy :: "string option \<Rightarrow> bool" where
  \<comment> \<open>\<^verbatim>\<open>if s:\<close> on an optional string\<close>
  "truthy s = (s \<noteq> None \<and> s \<noteq> Some [])"

definition due :: "rat \<Rightarrow> assistant \<Rightarrow> bool" where
  \<comment> \<open>\<^verbatim>\<open>time.time() - self.last_description_time > self.description_interval\<close>\<close>
  "due t a = (of_int (description_interval a) < fsub t (last_description_time a))"

definition ai_processing_body :: "tick_env \<Rightarrow> assistant \<Rightarrow> assistant option" where
  "ai_processing_body env a =
     (if auto_describe a \<and> due (now env) a then
        if \<not> empty_q (image_queue a) then
          (case get (image_queue a) of
             None \<Rightarrow> None
           | Some (f, q) \<Rightarrow>
               let a1 = a\<lparr>image_queue := q\<rparr>;
                   image_data = prepare_image_for_ai (tick_enc env) f
               in if truthy image_data then
                    (case image_data of
                       None \<Rightarrow> Some a1
                     | Some img \<Rightarrow>
                         let a2 = update_status ''Analyzing image...'' a1;
                             (description, a3) = analyze_image_with_ai (tick_gen env) img None a2;
                             a4 = emit (LogText description ''AUTO: '') a3;
                             a5 = emit (SpeakThread description) a4;
                             a6 = a5\<lparr>last_description_time := finished env\<rparr>
                         in Some (update_status ''Description complete'' a6))
                  else Some a1)
        else Some a
      else Some a)"

record voice_env =
  heard_speech :: listen_outcome
  voice_enc :: "frame \<Rightarrow> string option"
  voice_gen :: gen_outcome

definition voice_interaction_body :: "voice_env \<Rightarrow> assistant \<Rightarrow> assistant" where
  "voice_interaction_body env a =
     (if is_listening a then
        (case listen_for_speech (heard_speech env) (emit ListenCall a) of
           (Inl e, a1) \<Rightarrow> emit (LogError (''Voice interaction error: '' @ e)) a1
         | (Inr speech_text, a1) \<Rightarrow>
             let a2 =
               (if truthy speech_text then
                  (case speech_text of
                     None \<Rightarrow> a1
                   | Some q \<Rightarrow>
                       let b = emit (LogText q ''YOU: '') a1
                       in case current_frame b of
                            None \<Rightarrow> b
                          | Some f \<Rightarrow>
                              (case prepare_image_for_ai (voice_enc env) f of
                                 None \<Rightarrow> b
                               | Some img \<Rightarrow>
                                   if img = [] then b
                                   else
                                     let (response, b1) = analyze_image_with_ai (voice_gen env) img (Some q) b;
                                         b2 = emit (LogText response ''AI: '') b1
                                     in emit (SpeakThread response) b2))
                else a1)
             in emit (VoiceButton False) (a2\<lparr>is_listening := False\<rparr>))
      else a)"

subsection \<open>Starting and stopping\<close>

definition startup_msg_hi :: string where
  "startup_msg_hi = [
     CHR 0x41, CHR 0x49, CHR 0x20, CHR 0x56, CHR 0x69, CHR 0x73, CHR 0x69, CHR 0x6F,
     CHR 0x6E, CHR 0x20, CHR 0x41, CHR 0x73, CHR 0x73, CHR 0x69, CHR 0x73, CHR 0x74,
     CHR 0x61, CHR 0x6E, CHR 0x74, CHR 0x20, CHR 0xE0, CHR 0xA4, CHR 0xB6, CHR 0xE0,
     CHR 0xA5, CHR 0x81, CHR 0xE0, CHR 0xA4, CHR 0xB0, CHR 0xE0, CHR 0xA5, CHR 0x82,
     CHR 0x20, CHR 0xE0, CHR 0xA4, CHR 0xB9, CHR 0xE0, CHR 0xA5, CHR 0x8B, CHR 0x20,
     CHR 0xE0, CHR 0xA4, CHR 0x97, CHR 0xE0, CHR 0xA4, CHR 0xAF, CHR 0xE0, CHR 0xA4,
     CHR 0xBE, CHR 0xE0, CHR 0xA5, CHR 0xA4, CHR 0x20, CHR 0xE0, CHR 0xA4, CHR 0x86,
     CHR 0xE0, CHR 0xA4, CHR 0xB5, CHR 0xE0, CHR 0xA4, CHR 0xBE, CHR 0xE0, CHR 0xA4,
     CHR 0x9C, CHR 0xE0, CHR 0xA4, CHR 0xBC, CHR 0x20, CHR 0xE0, CHR 0xA4, CHR 0xB8,
     CHR 0xE0, CHR 0xA5, CHR 0x87, CHR 0x20, CHR 0xE0, CHR 0xA4, CHR 0xB8, CHR 0xE0,
     CHR 0xA4, CHR 0xB5, CHR 0xE0, CHR 0xA4, CHR 0xBE, CHR 0xE0, CHR 0xA4, CHR 0xB2,
     CHR 0x20, CHR 0xE0, CHR 0xA4, CHR 0xAA, CHR 0xE0, CHR 0xA5, CHR 0x82, CHR 0xE0,
     CHR 0xA4, CHR 0x9B, CHR 0xE0, CHR 0xA4, CHR 0xA8, CHR 0xE0, CHR 0xA5, CHR 0x87,
     CHR 0x20, CHR 0xE0, CHR 0xA4, CHR 0x95, CHR 0xE0, CHR 0xA5, CHR 0x87, CHR 0x20,
     CHR 0xE0, CHR 0xA4, CHR 0xB2, CHR 0xE0, CHR 0xA4, CHR 0xBF, CHR 0xE0, CHR 0xA4,
     CHR 0x8F, CHR 0x20, CHR 0x53, CHR 0x70, CHR 0x61, CHR 0x63, CHR 0x65, CHR 0x20,
     CHR 0xE0, CHR 0xA4, CHR 0xA6, CHR 0xE0, CHR 0xA4, CHR 0xAC, CHR 0xE0, CHR 0xA4,
     CHR 0xBE, CHR 0xE0, CHR 0xA4, CHR 0x8F, CHR 0xE0, CHR 0xA4, CHR 0x82, CHR 0xE0,
     CHR 0xA5, CHR 0xA4]"

definition stop_msg_hi :: string where
  "stop_msg_hi = [
     CHR 0x41, CHR 0x49, CHR 0x20, CHR 0x56, CHR 0x69, CHR 0x73, CHR 0x69, CHR 0x6F,
     CHR 0x6E, CHR 0x20, CHR 0x41, CHR 0x73, CHR 0x73, CHR 0x69, CHR 0x73, CHR 0x74,
     CHR 0x61, CHR 0x6E, CHR 0x74, CHR 0x20, CHR 0xE0, CHR 0xA4, CHR 0xAC, CHR 0xE0,
     CHR 0xA4, CHR 0x82, CHR 0xE0, CHR 0xA4, CHR 0xA6, CHR 0x20, CHR 0xE0, CHR 0xA4,
     CHR 0xB9, CHR 0xE0, CHR 0xA5, CHR 0x8B, CHR 0x20, CHR 0xE0, CHR 0xA4, CHR 0x97,
     CHR 0xE0, CHR 0xA4, CHR 0xAF, CHR 0xE0, CHR 0xA4, CHR 0xBE, CHR 0xE0, CHR 0xA5,
     CHR 0xA4]"

definition start_assistant :: "assistant \<Rightarrow> assistant" where
  "start_assistant a =
     (if \<not> ai_model a \<or> \<not> camera a then
        emit (ShowError ''Error'' ''Cannot start - AI model or camera not available'') a
      else
        let a1 = emit (StartButton ''Stop Assistant'') (a\<lparr>is_running := True\<rparr>);
            a2 = update_status ''Starting assistant...'' a1;
            a3 = emit StartThreads a2;
            a4 = update_status ''Assistant started'' a3;
            startup_msg =
              (if response_language a4 = ''hi'' then startup_msg_hi
               else ''AI Vision Assistant started. Press Space to ask questions via voice.'')
        in emit (LogText startup_msg []) a4)"

definition stop_assistant :: "assistant \<Rightarrow> assistant" where
  "stop_assistant a =
     (let a1 = emit (StartButton ''Start Assistant'') (a\<lparr>is_running := False, is_listening := False\<rparr>);
          a2 = update_status ''Stopping assistant...'' a1;
          a3 = emit StopAudio a2;
          a4 = update_status ''Assistant stopped'' a3;
          stop_msg =
            (if response_language a4 = ''hi'' then stop_msg_hi else ''AI Vision Assistant stopped.'')
      in emit (LogText stop_msg []) a4)"

definition toggle_assistant :: "assistant \<Rightarrow> assistant" where
  "toggle_assistant a = (if \<not> is_running a then start_assistant a else stop_assistant a)"

definition toggle_listening :: "assistant \<Rightarrow> assistant" where
  "toggle_listening a =
     (if \<not> is_running a then emit (ShowWarning ''Warning'' ''Please start the assistant first'') a
      else
        let a1 = a\<lparr>is_listening := \<not> is_listening a\<rparr>;
            a2 = emit (VoiceButton (is_listening a1)) a1
        in if is_listening a2 then update_status ''Voice listening activated'' a2
           else update_status ''Voice listening deactivated'' a2)"

definition toggle_auto_describe :: "assistant \<Rightarrow> assistant" where
  "toggle_auto_describe a =
     (let a1 = a\<lparr>auto_describe := auto_var a\<rparr>
      in update_status (''Auto-describe '' @ (if auto_describe a1 then ''enabled'' else ''disabled'')) a1)"

subsection \<open>Runs of the pipeline\<close>

text \<open>
  The threads and the user interface interleave. A run is a list of events, each one
  atomic: an iteration of one of the loops (which only iterate while \<open>is_running\<close>), or
  a user action. A user action on a spin box or check box first sets the Tk variable.
\<close>

record builtins =
  parse_int :: "string \<Rightarrow> int option"
  parse_float :: "string \<Rightarrow> pyfloat option"
  str_float :: "pyfloat \<Rightarrow> string"

datatype event =
    CameraIter "frame option"
  | AiIter tick_env
  | VoiceIter voice_env
  | SetInterval string
  | SetSpeed string
  | SetAuto bool
  | PressStart
  | PressListen

fun step :: "builtins \<Rightarrow> event \<Rightarrow> assistant \<Rightarrow> assistant option" where
  "step py (CameraIter r) a = (if is_running a then camera_body r a else Some a)"
| "step py (AiIter env) a = (if is_running a then ai_processing_body env a else Some a)"
| "step py (VoiceIter env) a = (if is_running a then Some (voice_interaction_body env a) else Some a)"
| "step py (SetInterval s) a = Some (update_interval (parse_int py) (a\<lparr>interval_var := s\<rparr>))"
| "step py (SetSpeed s) a =
     Some (update_speaking_speed (parse_float py) (str_float py) (a\<lparr>speed_var := s\<rparr>))"
| "step py (SetAuto b) a = Some (toggle_auto_describe (a\<lparr>auto_var := b\<rparr>))"
| "step py PressStart a = Some (toggle_assistant a)"
| "step py PressListen a = Some (toggle_listening a)"

fun run :: "builtins \<Rightarrow> event list \<Rightarrow> assistant \<Rightarrow> assistant option" where
  "run py [] a = Some a"
| "run py (e # es) a = (case step py e a of None \<Rightarrow> None | Some a' \<Rightarrow> run py es a')"

text \<open>
  The analysis calls of a run, in order: for each iteration of the auto-describe loop
  that enters \<^verbatim>\<open>analyze_image_with_ai\<close>, the clock value of its guard, the interval
  in force at that moment, and the timestamp it stores afterwards.
\<close>

definition analysis_calls :: "assistant \<Rightarrow> nat" where
  "analysis_calls a = length (filter (\<lambda>e. case e of AnalysisCall _ _ \<Rightarrow> True | _ \<Rightarrow> False) (effects a))"

definition listen_calls :: "assistant \<Rightarrow> nat" where
  "listen_calls a = length (filter (\<lambda>e. e = ListenCall) (effects a))"




text \<open>
  Sample values of \<^verbatim>\<open>float(s)\<close> and \<^verbatim>\<open>str(x)\<close>, for the worked examples: the strings
  and floats listed and no others.
\<close>

definition sample_parse_float :: "string \<Rightarrow> pyfloat option" where
  "sample_parse_float s =
     (if s = ''1.125'' then Some (Finite (9 / 8))
      else if s = ''1.5'' then Some (Finite (3 / 2))
      else if s = ''2.5'' then Some (Finite (5 / 2))
      else if s = ''inf'' then Some PosInf
      else if s = ''nan'' then Some NaN
      else None)"

definition sample_str_float :: "pyfloat \<Rightarrow> string" where
  "sample_str_float x =
     (if x = Finite (fl (12 / 10)) then ''1.2''
      else if x = Finite (9 / 8) then ''1.125''
      else if x = Finite (3 / 2) then ''1.5''
      else if x = Finite (5 / 2) then ''2.5''
      else if x = PosInf then ''inf''
      else ''nan'')"


text \<open>The two invariants of the shared state.\<close>

definition interval_ok :: "assistant \<Rightarrow> bool" where
  "interval_ok a = (5 \<le> description_interval a \<and> description_interval a \<le> 60)"

definition queue_ok :: "assistant \<Rightarrow> bool" where
  "queue_ok a = (maxsize (image_queue a) = 2 \<and> qsize (image_queue a) \<le> 2)"

text \<open>A worked run: the assistant is started, frames arrive, the interval is changed.\<close>

definition sample_frame :: "nat \<Rightarrow> frame" where
  "sample_frame k = \<lparr>height = 480, width = 640, pixels = k\<rparr>"



definition sample_full :: assistant where
  \<comment> \<open>a running assistant whose queue holds two frames\<close>
  "sample_full =
     (init True True ''key'')
       \<lparr>is_running := True, current_frame := Some (sample_frame 2),
        image_queue := \<lparr>maxsize = 2, items = [sample_frame 1, sample_frame 2]\<rparr>\<rparr>"



definition unlink_fails :: speak_env where
  \<comment> \<open>the cloud tier answers 403; gTTS plays the audio and then \<^verbatim>\<open>os.unlink\<close> raises\<close>
  "unlink_fails =
     \<lparr>post = PostResponse 403 (Json None), cloud_file = True, cloud_playback = None,
      gtts_synth = True, gtts_playback = Some UnlinkFails, pyttsx3_ok = True\<rparr>"


section \<open>Properties\<close>

subsection \<open>Rounding\<close>

lemma round_half_even_nonneg: "0 \<le> y \<Longrightarrow> 0 \<le> round_half_even y"
  by (auto simp: round_half_even_def Let_def)

lemma pow2_pos: "0 < pow2 k"
  by (simp add: pow2_def)

lemma fl_nonneg: "0 \<le> x \<Longrightarrow> 0 \<le> fl x"
  by (auto simp: fl_def Let_def round_half_even_nonneg pow2_pos less_imp_le sgn_if)








subsection \<open>What each method leaves unchanged\<close>

lemma analyze_keeps:
  assumes "analyze_image_with_ai gen img q a = (d, a')"
  shows "is_running a' = is_running a" and "is_listening a' = is_listening a"
    and "auto_describe a' = auto_describe a"
    and "last_description_time a' = last_description_time a"
    and "description_interval a' = description_interval a"
    and "image_queue a' = image_queue a" and "current_frame a' = current_frame a"
    and "analysis_calls a' = Suc (analysis_calls a)"
    and "listen_calls a' = listen_calls a"
  using assms
  by (cases gen; auto simp: analyze_image_with_ai_def emit_def Let_def analysis_calls_def
      listen_calls_def split: if_splits)+

lemma ai_body_total: "ai_processing_body env a \<noteq> None"
  by (auto simp: ai_processing_body_def get_def empty_q_def qsize_def Let_def
      split: list.splits option.splits prod.splits)

lemma ai_body_cases:
  assumes "ai_processing_body env a = Some a'"
  shows "description_interval a' = description_interval a"
    and "maxsize (image_queue a') = maxsize (image_queue a)"
    and "qsize (image_queue a') \<le> qsize (image_queue a)"
    and "(analysis_calls a' = analysis_calls a \<and>
          last_description_time a' = last_description_time a) \<or>
         (analysis_calls a' = Suc (analysis_calls a) \<and> auto_describe a \<and> due (now env) a \<and>
          last_description_time a' = finished env)"
  using assms
  by (auto simp: ai_processing_body_def get_def empty_q_def qsize_def Let_def update_status_def
      emit_def analysis_calls_def
      split: list.splits option.splits prod.splits if_splits
      dest: analyze_keeps)

lemma camera_body_total: "camera_body r a \<noteq> None"
  by (auto simp: camera_body_def put_def Let_def emit_def split: option.splits)

lemma camera_body_keeps:
  assumes "camera_body r a = Some a'"
  shows "description_interval a' = description_interval a"
    and "last_description_time a' = last_description_time a"
    and "analysis_calls a' = analysis_calls a"
    and "maxsize (image_queue a') = maxsize (image_queue a)"
    and "maxsize (image_queue a) = 2 \<Longrightarrow> qsize (image_queue a) \<le> 2 \<Longrightarrow> qsize (image_queue a') \<le> 2"
  using assms
  by (auto simp: camera_body_def put_def full_def qsize_def Let_def emit_def analysis_calls_def
      split: option.splits if_splits)

lemma voice_body_keeps:
  shows "description_interval (voice_interaction_body env a) = description_interval a"
    and "last_description_time (voice_interaction_body env a) = last_description_time a"
    and "image_queue (voice_interaction_body env a) = image_queue a"
  by (cases "heard_speech env";
      auto simp: voice_interaction_body_def Let_def emit_def update_status_def truthy_def
      split: option.splits prod.splits sum.splits dest: analyze_keeps)+

lemma update_interval_keeps:
  shows "last_description_time (update_interval p a) = last_description_time a"
    and "image_queue (update_interval p a) = image_queue a"
    and "analysis_calls (update_interval p a) = analysis_calls a"
    and "5 \<le> description_interval a \<and> description_interval a \<le> 60 \<Longrightarrow>
         5 \<le> description_interval (update_interval p a) \<and>
         description_interval (update_interval p a) \<le> 60"
  by (auto simp: update_interval_def update_status_def analysis_calls_def split: option.splits)

lemma update_speaking_speed_keeps:
  shows "last_description_time (update_speaking_speed p s a) = last_description_time a"
    and "image_queue (update_speaking_speed p s a) = image_queue a"
    and "description_interval (update_speaking_speed p s a) = description_interval a"
  by (auto simp: update_speaking_speed_def update_status_def split: option.splits pyfloat.splits)

lemma toggles_keep:
  shows "last_description_time (toggle_assistant a) = last_description_time a"
    and "image_queue (toggle_assistant a) = image_queue a"
    and "description_interval (toggle_assistant a) = description_interval a"
    and "last_description_time (toggle_listening a) = last_description_time a"
    and "image_queue (toggle_listening a) = image_queue a"
    and "description_interval (toggle_listening a) = description_interval a"
    and "last_description_time (toggle_auto_describe a) = last_description_time a"
    and "image_queue (toggle_auto_describe a) = image_queue a"
    and "description_interval (toggle_auto_describe a) = description_interval a"
  by (auto simp: toggle_assistant_def start_assistant_def stop_assistant_def toggle_listening_def
      toggle_auto_describe_def Let_def emit_def update_status_def)

lemma step_total: "step py e a \<noteq> None"
  using camera_body_total ai_body_total by (cases e) auto

lemma step_interval_ok:
  assumes "step py e a = Some a'" and "interval_ok a"
  shows "interval_ok a'"
proof (cases e)
  case (CameraIter r)
  then show ?thesis using assms
    by (auto simp: interval_ok_def split: if_splits dest: camera_body_keeps(1))
next
  case (AiIter env)
  then show ?thesis using assms
    by (auto simp: interval_ok_def split: if_splits dest: ai_body_cases(1))
next
  case (VoiceIter env)
  then show ?thesis using assms
    by (auto simp: interval_ok_def voice_body_keeps split: if_splits)
next
  case (SetInterval s)
  then show ?thesis using assms update_interval_keeps(4) [of "a\<lparr>interval_var := s\<rparr>" "parse_int py"]
    by (auto simp: interval_ok_def)
next
  case (SetSpeed s)
  then show ?thesis using assms by (auto simp: interval_ok_def update_speaking_speed_keeps)
next
  case (SetAuto b)
  then show ?thesis using assms by (auto simp: interval_ok_def toggles_keep)
next
  case PressStart
  then show ?thesis using assms by (auto simp: interval_ok_def toggles_keep)
next
  case PressListen
  then show ?thesis using assms by (auto simp: interval_ok_def toggles_keep)
qed

lemma step_queue_ok:
  assumes "step py e a = Some a'" and "queue_ok a"
  shows "queue_ok a'"
proof (cases e)
  case (CameraIter r)
  then show ?thesis using assms
    by (auto simp: queue_ok_def split: if_splits dest: camera_body_keeps(4,5))
next
  case (AiIter env)
  then show ?thesis using assms
    by (auto simp: queue_ok_def split: if_splits dest: ai_body_cases(2,3))
next
  case (VoiceIter env)
  then show ?thesis using assms
    by (auto simp: queue_ok_def voice_body_keeps split: if_splits)
next
  case (SetInterval s)
  then show ?thesis using assms by (auto simp: queue_ok_def update_interval_keeps)
next
  case (SetSpeed s)
  then show ?thesis using assms by (auto simp: queue_ok_def update_speaking_speed_keeps)
next
  case (SetAuto b)
  then show ?thesis using assms by (auto simp: queue_ok_def toggles_keep)
next
  case PressStart
  then show ?thesis using assms by (auto simp: queue_ok_def toggles_keep)
next
  case PressListen
  then show ?thesis using assms by (auto simp: queue_ok_def toggles_keep)
qed


lemma run_total: "\<exists>a'. run py evs a = Some a'"
proof (induction evs arbitrary: a)
  case Nil
  show ?case by simp
next
  case (Cons e es)
  obtain b where "step py e a = Some b" using step_total [of py e a] by auto
  then show ?case using Cons.IH [of b] by simp
qed

lemma run_interval_ok: "run py evs a = Some a' \<Longrightarrow> interval_ok a \<Longrightarrow> interval_ok a'"
proof (induction evs arbitrary: a)
  case Nil
  then show ?case by simp
next
  case (Cons e es)
  then show ?case by (auto split: option.splits dest: step_interval_ok)
qed

lemma run_queue_ok: "run py evs a = Some a' \<Longrightarrow> queue_ok a \<Longrightarrow> queue_ok a'"
proof (induction evs arbitrary: a)
  case Nil
  then show ?case by simp
next
  case (Cons e es)
  then show ?case by (auto split: option.splits dest: step_queue_ok)
qed



subsection \<open>The recogniser\<close>




subsection \<open>The auto-describe loop\<close>



subsection \<open>The interval setter\<close>

text \<open>
  C2. If the text of the interval box parses as an integer \<open>v\<close> with \<open>5 \<le> v \<le> 60\<close>,
  the stored interval becomes \<open>v\<close>. For every other text (out of range, or not an
  integer) the stored interval is unchanged, the box shows the stored interval again, and
  the status line carries one of the two rejection messages. The interval is 10 at start
  and stays within 5..60 in every run.
\<close>

theorem update_interval_spec:
  "(parse (interval_var a) = Some v \<and> 5 \<le> v \<and> v \<le> 60 \<longrightarrow>
      description_interval (update_interval parse a) = v) \<and>
   ((\<nexists>w. parse (interval_var a) = Some w \<and> 5 \<le> w \<and> w \<le> 60) \<longrightarrow>
      description_interval (update_interval parse a) = description_interval a \<and>
      interval_var (update_interval parse a) = str_int (description_interval a) \<and>
      (status (update_interval parse a) = ''Interval must be between 5-60 seconds'' \<or>
       status (update_interval parse a) = ''Invalid interval value'')) \<and>
   description_interval (init ai cam key) = 10 \<and>
   (case run py evs (init ai cam key) of
      None \<Rightarrow> False
    | Some a' \<Rightarrow> 5 \<le> description_interval a' \<and> description_interval a' \<le> 60)"
proof -
  have ok: "interval_ok (init ai cam key)" by (simp add: interval_ok_def init_def)
  obtain b where b: "run py evs (init ai cam key) = Some b"
    using run_total [of py evs "init ai cam key"] by auto
  have "interval_ok b" using run_interval_ok [OF b ok] .
  then have r: "case run py evs (init ai cam key) of
      None \<Rightarrow> False
    | Some a' \<Rightarrow> 5 \<le> description_interval a' \<and> description_interval a' \<le> 60"
    using b by (simp add: interval_ok_def)
  have s: "(parse (interval_var a) = Some v \<and> 5 \<le> v \<and> v \<le> 60 \<longrightarrow>
      description_interval (update_interval parse a) = v) \<and>
   ((\<nexists>w. parse (interval_var a) = Some w \<and> 5 \<le> w \<and> w \<le> 60) \<longrightarrow>
      description_interval (update_interval parse a) = description_interval a \<and>
      interval_var (update_interval parse a) = str_int (description_interval a) \<and>
      (status (update_interval parse a) = ''Interval must be between 5-60 seconds'' \<or>
       status (update_interval parse a) = ''Invalid interval value''))"
    by (auto simp: update_interval_def update_status_def split: option.splits)
  have i: "description_interval (init ai cam key) = 10" by (simp add: init_def)
  show ?thesis using s i r by blast
qed

theorem update_interval_spec_witness:
  "int_of_decimal (interval_var ((init True True ''key'')\<lparr>interval_var := ''30''\<rparr>)) = Some 30 \<and>
   description_interval
     (update_interval int_of_decimal ((init True True ''key'')\<lparr>interval_var := ''30''\<rparr>)) = 30 \<and>
   int_of_decimal ''200'' = Some 200 \<and>
   description_interval
     (update_interval int_of_decimal ((init True True ''key'')\<lparr>interval_var := ''200''\<rparr>)) = 10 \<and>
   interval_var
     (update_interval int_of_decimal ((init True True ''key'')\<lparr>interval_var := ''200''\<rparr>)) = ''10'' \<and>
   int_of_decimal ''abc'' = None \<and>
   status
     (update_interval int_of_decimal ((init True True ''key'')\<lparr>interval_var := ''abc''\<rparr>)) =
     ''Invalid interval value''"
proof -
  have p30: "int_of_decimal (interval_var ((init True True ''key'')\<lparr>interval_var := ''30''\<rparr>)) = Some 30"
    by (simp add: digit_val_def)
  have p200: "int_of_decimal ''200'' = Some 200" by (simp add: digit_val_def)
  have pabc: "int_of_decimal ''abc'' = None" by (simp add: digit_val_def)
  have a30: "description_interval
     (update_interval int_of_decimal ((init True True ''key'')\<lparr>interval_var := ''30''\<rparr>)) = 30"
    using update_interval_spec [where parse = int_of_decimal and v = 30
        and a = "(init True True ''key'')\<lparr>interval_var := ''30''\<rparr>"] p30
    by simp
  have n200: "\<nexists>w. int_of_decimal (interval_var ((init True True ''key'')\<lparr>interval_var := ''200''\<rparr>)) = Some w
     \<and> 5 \<le> w \<and> w \<le> 60"
    using p200 by simp
  have a200: "description_interval
     (update_interval int_of_decimal ((init True True ''key'')\<lparr>interval_var := ''200''\<rparr>)) =
       description_interval ((init True True ''key'')\<lparr>interval_var := ''200''\<rparr>) \<and>
     interval_var
     (update_interval int_of_decimal ((init True True ''key'')\<lparr>interval_var := ''200''\<rparr>)) =
       str_int (description_interval ((init True True ''key'')\<lparr>interval_var := ''200''\<rparr>))"
    using update_interval_spec [where parse = int_of_decimal
        and a = "(init True True ''key'')\<lparr>interval_var := ''200''\<rparr>"] n200
    by blast
  have i: "description_interval ((init True True ''key'')\<lparr>interval_var := ''200''\<rparr>) = 10"
    by (simp add: init_def)
  have s10: "str_int 10 = ''10''" by (simp add: str_int_def str_nat.simps)
  have sabc: "status
     (update_interval int_of_decimal ((init True True ''key'')\<lparr>interval_var := ''abc''\<rparr>)) =
     ''Invalid interval value''"
    using pabc by (simp add: update_interval_def update_status_def)
  show ?thesis using p30 p200 pabc a30 a200 i s10 sabc by simp
qed

subsection \<open>The frame queue\<close>

text \<open>
  C3. In every run the frame queue holds at most 2 frames. An iteration of the capture
  loop that finds the queue full publishes the frame as \<open>current_frame\<close>, shows it, and
  leaves the queue as it is; and no iteration of the capture loop blocks or fails.
\<close>

theorem frame_queue_bounded:
  "(case run py evs (init ai cam key) of
      None \<Rightarrow> False
    | Some a' \<Rightarrow> qsize (image_queue a') \<le> 2) \<and>
   (camera a \<and> full (image_queue a) \<longrightarrow>
      camera_body (Some f) a = Some (emit (Display f) (a\<lparr>current_frame := Some f\<rparr>))) \<and>
   (\<exists>a'. camera_body r a = Some a')"
proof -
  have ok: "queue_ok (init ai cam key)"
    by (simp add: queue_ok_def init_def new_queue_def qsize_def)
  obtain b where b: "run py evs (init ai cam key) = Some b"
    using run_total [of py evs "init ai cam key"] by auto
  have "queue_ok b" using run_queue_ok [OF b ok] .
  then have r: "case run py evs (init ai cam key) of
      None \<Rightarrow> False | Some a' \<Rightarrow> qsize (image_queue a') \<le> 2"
    using b by (simp add: queue_ok_def)
  have d: "camera a \<and> full (image_queue a) \<longrightarrow>
      camera_body (Some f) a = Some (emit (Display f) (a\<lparr>current_frame := Some f\<rparr>))"
    by (simp add: camera_body_def capture_frame_def emit_def Let_def)
  have t: "\<exists>a'. camera_body r a = Some a'" using camera_body_total [of r a] by auto
  show ?thesis using r d t by blast
qed

theorem frame_queue_bounded_witness:
  "camera sample_full \<and> full (image_queue sample_full) \<and>
   camera_body (Some (sample_frame 3)) sample_full =
     Some (emit (Display (sample_frame 3)) (sample_full\<lparr>current_frame := Some (sample_frame 3)\<rparr>)) \<and>
   items (image_queue (emit (Display (sample_frame 3))
     (sample_full\<lparr>current_frame := Some (sample_frame 3)\<rparr>))) = [sample_frame 1, sample_frame 2] \<and>
   current_frame (emit (Display (sample_frame 3))
     (sample_full\<lparr>current_frame := Some (sample_frame 3)\<rparr>)) = Some (sample_frame 3)"
proof -
  have h: "camera sample_full \<and> full (image_queue sample_full)"
    by (simp add: sample_full_def init_def full_def qsize_def)
  have c: "camera_body (Some (sample_frame 3)) sample_full =
     Some (emit (Display (sample_frame 3)) (sample_full\<lparr>current_frame := Some (sample_frame 3)\<rparr>))"
    using frame_queue_bounded [where a = sample_full and f = "sample_frame 3"] h by blast
  show ?thesis using h c by (simp add: emit_def sample_full_def)
qed


subsection \<open>The synthesis fallback chain\<close>

text \<open>
  When the cloud tier is switched off or fails before any playback, gTTS is entered, and
  the tiers heard are these: gTTS alone when it completes; pyttsx3 alone (if it works)
  when gTTS raises before \<^verbatim>\<open>music.play\<close> has returned; and both when gTTS raises
  after that.
\<close>

lemma audio_outputs_emit:
  "audio_outputs (emit e a) = audio_outputs a @ (case e of AudioOut t _ \<Rightarrow> [t] | _ \<Rightarrow> [])"
  by (simp add: audio_outputs_def emit_def)

lemma audio_outputs_status: "audio_outputs (update_status m a) = audio_outputs a"
  by (simp add: audio_outputs_def update_status_def)

lemma tiers_entered_emit:
  "tiers_entered (emit e a) = tiers_entered a @ (case e of TierEntered t \<Rightarrow> [t] | _ \<Rightarrow> [])"
  by (simp add: tiers_entered_def emit_def)

lemma tiers_entered_status: "tiers_entered (update_status m a) = tiers_entered a"
  by (simp add: tiers_entered_def update_status_def)

lemma pyttsx3_outputs:
  shows "audio_outputs (speak_with_pyttsx3 env text a) =
           audio_outputs a @ (if pyttsx3_ok env then [Pyttsx3] else [])"
    and "tiers_entered (speak_with_pyttsx3 env text a) = tiers_entered a @ [Pyttsx3]"
  by (simp_all add: speak_with_pyttsx3_def Let_def audio_outputs_emit audio_outputs_status
      tiers_entered_emit tiers_entered_status)

lemma gtts_outputs:
  shows "audio_outputs (speak_with_gtts env text a) =
           audio_outputs a @
           (if gtts_synth env then
              (if heard (gtts_playback env) then [Gtts] else []) @
              (if gtts_playback env = None then []
               else if pyttsx3_ok env then [Pyttsx3] else [])
            else if pyttsx3_ok env then [Pyttsx3] else [])"
    and "Gtts \<in> set (tiers_entered (speak_with_gtts env text a))"
  by (simp_all add: speak_with_gtts_def Let_def case_prod_beta mixer_playback_def
      bool.case_eq_if pyttsx3_outputs audio_outputs_emit tiers_entered_emit)

lemma cloud_failed:
  assumes "post env = PostRaises \<or>
           (\<exists>c b. post env = PostResponse c b \<and>
              (c \<noteq> 200 \<or> b = JsonRaises \<or> b = Json None \<or> b = Json (Some [])))"
  shows "fst (speak_with_google_cloud_tts env text a) = False \<and>
         audio_outputs (snd (speak_with_google_cloud_tts env text a)) = audio_outputs a"
proof (cases "post env")
  case PostRaises
  then show ?thesis
    by (simp add: speak_with_google_cloud_tts_def Let_def case_prod_beta audio_outputs_emit)
next
  case (PostResponse c b)
  then have "c \<noteq> 200 \<or> b = JsonRaises \<or> b = Json None \<or> b = Json (Some [])"
    using assms by simp
  then show ?thesis using PostResponse
    by (cases b)
      (auto simp: speak_with_google_cloud_tts_def Let_def case_prod_beta audio_outputs_emit)
qed

lemma speak_text_fallback:
  assumes "\<not> use_google_tts_api a \<or> google_tts_api_key a = [] \<or> post env = PostRaises \<or>
           (\<exists>c b. post env = PostResponse c b \<and>
              (c \<noteq> 200 \<or> b = JsonRaises \<or> b = Json None \<or> b = Json (Some [])))"
  shows "Gtts \<in> set (tiers_entered (speak_text env text a))"
    and "audio_outputs (speak_text env text a) =
           audio_outputs a @
           (if gtts_synth env then
              (if heard (gtts_playback env) then [Gtts] else []) @
              (if gtts_playback env = None then []
               else if pyttsx3_ok env then [Pyttsx3] else [])
            else if pyttsx3_ok env then [Pyttsx3] else [])"
proof -
  show "Gtts \<in> set (tiers_entered (speak_text env text a))"
  proof (cases "use_google_tts_api a \<and> google_tts_api_key a \<noteq> []")
    case False
    then show ?thesis by (auto simp: speak_text_def gtts_outputs(2))
  next
    case True
    then have "fst (speak_with_google_cloud_tts env text a) = False"
      using assms cloud_failed by blast
    then show ?thesis using True
      by (cases "speak_with_google_cloud_tts env text a") (simp add: speak_text_def gtts_outputs(2))
  qed
  show "audio_outputs (speak_text env text a) =
           audio_outputs a @
           (if gtts_synth env then
              (if heard (gtts_playback env) then [Gtts] else []) @
              (if gtts_playback env = None then []
               else if pyttsx3_ok env then [Pyttsx3] else [])
            else if pyttsx3_ok env then [Pyttsx3] else [])"
  proof (cases "use_google_tts_api a \<and> google_tts_api_key a \<noteq> []")
    case False
    then show ?thesis by (auto simp: speak_text_def gtts_outputs(1))
  next
    case True
    then have f: "fst (speak_with_google_cloud_tts env text a) = False"
      and o: "audio_outputs (snd (speak_with_google_cloud_tts env text a)) = audio_outputs a"
      using assms cloud_failed by blast+
    show ?thesis using True f o
      by (cases "speak_with_google_cloud_tts env text a") (simp add: speak_text_def gtts_outputs(1))
  qed
qed

text \<open>
  C4. The chain is meant to let one tier speak. Here the cloud tier answers 403, gTTS
  plays the text, and then \<^verbatim>\<open>os.unlink\<close> raises inside the same \<^verbatim>\<open>try\<close> block: the
  handler falls back to pyttsx3, and the text is heard twice.
\<close>

theorem speak_text_two_outputs:
  "audio_outputs (speak_text unlink_fails ''A desk with a lamp.'' (init True True ''key'')) =
     [Gtts, Pyttsx3]"
  by code_simp

subsection \<open>What the recogniser returns\<close>




subsection \<open>The speed setter\<close>

lemma float_of_int_150: "float_of_int 150 = 150"
  by code_simp

theorem speed_rate_is_truncated:
  "sample_parse_float ''1.125'' = Some (Finite (9 / 8)) \<and>
   tts_rate (update_speaking_speed sample_parse_float sample_str_float
      ((init True True ''key'')\<lparr>speed_var := ''1.125''\<rparr>)) = 168 \<and>
   round (150 * (9 / 8) :: rat) = 169"
  by code_simp

text \<open>
  C6, as the program has it. If the text of the speed box parses as a float \<open>s\<close> with
  \<open>0.5 \<le> s \<le> 2.0\<close>, the stored speed becomes \<open>s\<close> and the engine rate becomes
  \<^verbatim>\<open>int(150 * s)\<close>: the float product cut off towards zero, not rounded. For every other
  text (out of range, infinite, NaN, or not a number) the stored speed and the engine rate
  are unchanged and the box shows the stored speed again.
\<close>

theorem update_speaking_speed_spec:
  "(parse (speed_var a) = Some (Finite s) \<and> 1 / 2 \<le> s \<and> s \<le> 2 \<longrightarrow>
      speaking_speed (update_speaking_speed parse str a) = s \<and>
      tts_rate (update_speaking_speed parse str a) = \<lfloor>fl (150 * s)\<rfloor>) \<and>
   ((\<nexists>x. parse (speed_var a) = Some (Finite x) \<and> 1 / 2 \<le> x \<and> x \<le> 2) \<longrightarrow>
      speaking_speed (update_speaking_speed parse str a) = speaking_speed a \<and>
      tts_rate (update_speaking_speed parse str a) = tts_rate a \<and>
      speed_var (update_speaking_speed parse str a) = str (Finite (speaking_speed a)))"
proof -
  have p1: "speaking_speed (update_speaking_speed parse str a) = s \<and>
      tts_rate (update_speaking_speed parse str a) = \<lfloor>fl (150 * s)\<rfloor>"
    if "parse (speed_var a) = Some (Finite s)" and "1 / 2 \<le> s" and "s \<le> 2"
  proof -
    have "0 \<le> fl (150 * s)" using that(2) by (intro fl_nonneg) simp
    then show ?thesis using that
      by (simp add: update_speaking_speed_def update_status_def py_int_def fmul_def
          float_of_int_150)
  qed
  have p2: "(\<nexists>x. parse (speed_var a) = Some (Finite x) \<and> 1 / 2 \<le> x \<and> x \<le> 2) \<longrightarrow>
      speaking_speed (update_speaking_speed parse str a) = speaking_speed a \<and>
      tts_rate (update_speaking_speed parse str a) = tts_rate a \<and>
      speed_var (update_speaking_speed parse str a) = str (Finite (speaking_speed a))"
    by (auto simp: update_speaking_speed_def update_status_def
        split: option.splits pyfloat.splits)
  show ?thesis using p1 p2 by blast
qed

theorem update_speaking_speed_spec_witness:
  "sample_parse_float (speed_var ((init True True ''key'')\<lparr>speed_var := ''1.5''\<rparr>)) = Some (Finite (3 / 2)) \<and>
   speaking_speed (update_speaking_speed sample_parse_float sample_str_float
      ((init True True ''key'')\<lparr>speed_var := ''1.5''\<rparr>)) = 3 / 2 \<and>
   tts_rate (update_speaking_speed sample_parse_float sample_str_float
      ((init True True ''key'')\<lparr>speed_var := ''1.5''\<rparr>)) = 225 \<and>
   sample_parse_float (speed_var ((init True True ''key'')\<lparr>speed_var := ''2.5''\<rparr>)) = Some (Finite (5 / 2)) \<and>
   tts_rate (update_speaking_speed sample_parse_float sample_str_float
      ((init True True ''key'')\<lparr>speed_var := ''2.5''\<rparr>)) = 200 \<and>
   speed_var (update_speaking_speed sample_parse_float sample_str_float
      ((init True True ''key'')\<lparr>speed_var := ''2.5''\<rparr>)) = ''1.2''"
proof -
  have h1: "sample_parse_float (speed_var ((init True True ''key'')\<lparr>speed_var := ''1.5''\<rparr>)) =
      Some (Finite (3 / 2))"
    by (simp add: sample_parse_float_def)
  have h2: "sample_parse_float (speed_var ((init True True ''key'')\<lparr>speed_var := ''2.5''\<rparr>)) =
      Some (Finite (5 / 2))"
    by (simp add: sample_parse_float_def)
  have c1: "speaking_speed (update_speaking_speed sample_parse_float sample_str_float
      ((init True True ''key'')\<lparr>speed_var := ''1.5''\<rparr>)) = 3 / 2 \<and>
     tts_rate (update_speaking_speed sample_parse_float sample_str_float
      ((init True True ''key'')\<lparr>speed_var := ''1.5''\<rparr>)) = \<lfloor>fl (150 * (3 / 2))\<rfloor>"
    using update_speaking_speed_spec [where parse = sample_parse_float and str = sample_str_float
        and a = "(init True True ''key'')\<lparr>speed_var := ''1.5''\<rparr>" and s = "3 / 2"] h1
    by simp
  have n2: "\<nexists>x. sample_parse_float (speed_var ((init True True ''key'')\<lparr>speed_var := ''2.5''\<rparr>)) =
      Some (Finite x) \<and> 1 / 2 \<le> x \<and> x \<le> 2"
    using h2 by simp
  have c2: "tts_rate (update_speaking_speed sample_parse_float sample_str_float
      ((init True True ''key'')\<lparr>speed_var := ''2.5''\<rparr>)) =
        tts_rate ((init True True ''key'')\<lparr>speed_var := ''2.5''\<rparr>) \<and>
     speed_var (update_speaking_speed sample_parse_float sample_str_float
      ((init True True ''key'')\<lparr>speed_var := ''2.5''\<rparr>)) =
        sample_str_float (Finite (speaking_speed ((init True True ''key'')\<lparr>speed_var := ''2.5''\<rparr>)))"
    using update_speaking_speed_spec [where parse = sample_parse_float and str = sample_str_float
        and a = "(init True True ''key'')\<lparr>speed_var := ''2.5''\<rparr>"] n2
    by blast
  have e1: "\<lfloor>fl (150 * (3 / 2))\<rfloor> = 225" by code_simp
  have e2: "tts_rate ((init True True ''key'')\<lparr>speed_var := ''2.5''\<rparr>) = 200"
    by (simp add: init_def)
  have e3: "sample_str_float (Finite (speaking_speed ((init True True ''key'')\<lparr>speed_var := ''2.5''\<rparr>))) = ''1.2''"
    by (simp add: init_def sample_str_float_def)
  show ?thesis using h1 h2 c1 c2 e1 e2 e3 by simp
qed

subsection \<open>Resizing\<close>

lemma width_1078: "py_int (fmul (float_of_int 1078) (int_truediv 800 1078)) = 799"
  by code_simp

lemma height_600: "py_int (fmul (float_of_int 600) (int_truediv 800 1078)) = 445"
  by code_simp

lemma resized_small: "width f \<le> 800 \<Longrightarrow> resized f = Some f"
  by (simp add: resized_def)

text \<open>
  C7. A frame wider than 800 is meant to come out 800 wide. For a frame 1078 wide the
  float \<^verbatim>\<open>800 / 1078\<close> times 1078 is just below 800, and \<^verbatim>\<open>int\<close> cuts it to 799.
\<close>

theorem resized_width_1078:
  "resized \<lparr>height = 600, width = 1078, pixels = 0\<rparr> =
     Some \<lparr>height = 445, width = 799, pixels = 0\<rparr>"
  by (simp add: resized_def cv2_resize_def Let_def width_1078 height_600)

subsection \<open>Starting\<close>

text \<open>
  C8. \<^verbatim>\<open>start_assistant\<close> sets \<open>is_running\<close> when both the AI model and the camera are
  there. When either is missing it shows the error dialog and changes nothing else, so
  \<open>is_running\<close> keeps its value; and the start button takes a stopped assistant to a
  running one only if both are there.
\<close>

theorem start_fails_closed:
  "(ai_model a \<and> camera a \<longrightarrow> is_running (start_assistant a)) \<and>
   (\<not> (ai_model a \<and> camera a) \<longrightarrow>
      start_assistant a =
        emit (ShowError ''Error'' ''Cannot start - AI model or camera not available'') a \<and>
      is_running (start_assistant a) = is_running a) \<and>
   (\<not> is_running a \<and> is_running (toggle_assistant a) \<longrightarrow> ai_model a \<and> camera a)"
  by (auto simp: start_assistant_def toggle_assistant_def emit_def update_status_def Let_def)

theorem start_fails_closed_witness:
  "ai_model (init True True ''key'') \<and> camera (init True True ''key'') \<and>
   is_running (start_assistant (init True True ''key'')) \<and>
   \<not> (ai_model (init True False ''key'') \<and> camera (init True False ''key'')) \<and>
   \<not> is_running (start_assistant (init True False ''key'')) \<and>
   effects (start_assistant (init True False ''key'')) =
     [ShowError ''Error'' ''Cannot start - AI model or camera not available''] \<and>
   \<not> is_running (init True True ''key'') \<and>
   is_running (toggle_assistant (init True True ''key''))"
proof -
  have h1: "ai_model (init True True ''key'') \<and> camera (init True True ''key'')"
    by (simp add: init_def)
  have h2: "\<not> (ai_model (init True False ''key'') \<and> camera (init True False ''key''))"
    by (simp add: init_def)
  have h3: "\<not> is_running (init True True ''key'') \<and>
            is_running (toggle_assistant (init True True ''key''))"
    by (simp add: init_def toggle_assistant_def start_assistant_def emit_def update_status_def
        Let_def)
  have c1: "is_running (start_assistant (init True True ''key''))"
    using start_fails_closed [of "init True True ''key''"] h1 by blast
  have c2: "start_assistant (init True False ''key'') =
        emit (ShowError ''Error'' ''Cannot start - AI model or camera not available'')
          (init True False ''key'')"
    using start_fails_closed [of "init True False ''key''"] h2 by blast
  have c3: "ai_model (init True True ''key'') \<and> camera (init True True ''key'')"
    using start_fails_closed [of "init True True ''key''"] h3 by blast
  show ?thesis using h1 h2 h3 c1 c2 c3 by (simp add: emit_def init_def)
qed

subsection \<open>The voice loop\<close>



subsection \<open>Lower-casing\<close>



end
